theory Spec2Isabelle
  imports Main "HOL-Library.AList"
begin

section \<open>Python values, strings and exceptions\<close>

text \<open>
  The lines, commands, names and replies of the program are \<open>string\<close>s; one \<open>char\<close>
  stands for one code point below 256. In that range the classes that the input loop and
  the dispatcher rely on are small tables: the separators of \<open>str.split()\<close> are the code
  points 9 to 13, 28 to 32, 133 and 160, and \<open>str.lower()\<close> moves \<open>A\<close> to \<open>Z\<close> and the
  accented capitals 192 to 222 (215, the multiplication sign, apart) up by 32.
\<close>

definition code_point :: "char \<Rightarrow> int" where
  "code_point c = of_char c"

text \<open>
  The text that \<open>verify_phone\<close> checks is a Python \<open>str\<close> of any code points, given as
  the list of its code points, because the class \<open>\d\<close> of a \<open>str\<close> pattern compiled without
  \<open>re.ASCII\<close> is not \<open>0\<close> to \<open>9\<close>: it holds every decimal digit of Unicode (category Nd).
  In the Unicode database 14.0 of CPython 3.11 these are 660 code points, 66 runs of the
  ten digits zero to nine; \<open>digit_zeros\<close> lists the zero of each run. \<open>code_points\<close>
  gives the code points of a \<open>string\<close>.
\<close>

type_synonym unicode = "int list"

definition code_points :: "string \<Rightarrow> unicode" where
  "code_points s = map of_char s"

definition digit_zeros :: "int list" where
  "digit_zeros =
     [48, 1632, 1776, 1984, 2406, 2534, 2662, 2790, 2918, 3046, 3174, 3302, 3430, 3558, 3664,
      3792, 3872, 4160, 4240, 6112, 6160, 6470, 6608, 6784, 6800, 6992, 7088, 7232, 7248,
      42528, 43216, 43264, 43472, 43504, 43600, 44016, 65296, 66720, 68912, 69734, 69872,
      69942, 70096, 70384, 70736, 70864, 71248, 71360, 71472, 71904, 72016, 72784, 73040,
      73120, 92768, 92864, 93008, 120782, 120792, 120802, 120812, 120822, 123200, 123632,
      125264, 130032]"

definition is_digit :: "int \<Rightarrow> bool" where
  "is_digit c = list_ex (\<lambda>zero. zero \<le> c \<and> c < zero + 10) digit_zeros"

definition is_space :: "char \<Rightarrow> bool" where
  "is_space c = (let n = code_point c in
     (9 \<le> n \<and> n \<le> 13) \<or> (28 \<le> n \<and> n \<le> 32) \<or> n = 133 \<or> n = 160)"

definition lower_char :: "char \<Rightarrow> char" where
  "lower_char c = (let n = code_point c in
     if (65 \<le> n \<and> n \<le> 90) \<or> (192 \<le> n \<and> n \<le> 222 \<and> n \<noteq> 215)
     then char_of (n + 32) else c)"

definition lower :: "string \<Rightarrow> string" where
  "lower s = map lower_char s"

text \<open>
  \<open>str.split()\<close> without a separator: runs of white space separate the tokens, and
  leading and trailing white space gives no empty token. \<open>cur\<close> is the token being read.
\<close>

fun split_from :: "string \<Rightarrow> string \<Rightarrow> string list" where
  "split_from cur [] = (if cur = [] then [] else [cur])"
| "split_from cur (c # cs) =
     (if is_space c then (if cur = [] then split_from [] cs else cur # split_from [] cs)
      else split_from (cur @ [c]) cs)"

definition split :: "string \<Rightarrow> string list" where
  "split s = split_from [] s"

text \<open>
  \<open>repr\<close> of a \<open>str\<close>, which is what \<open>str(KeyError(k))\<close> prints: double quotes when the
  text holds a single quote and no double quote, single quotes otherwise; the backslash and
  the chosen quote escaped, tab, newline and carriage return by letter, every other
  non-printable code point as \<open>\xhh\<close>.
\<close>

definition is_printable :: "char \<Rightarrow> bool" where
  "is_printable c = (let n = code_point c in
     (32 \<le> n \<and> n \<le> 126) \<or> (161 \<le> n \<and> n \<noteq> 173))"

definition hex_digit :: "int \<Rightarrow> char" where
  "hex_digit n = (if n < 10 then char_of (48 + n) else char_of (87 + n))"

definition repr_char :: "char \<Rightarrow> char \<Rightarrow> string" where
  "repr_char quote c =
     (if c = quote \<or> c = CHR 0x5C then [CHR 0x5C, c]
      else if c = CHR 0x09 then [CHR 0x5C, CHR ''t'']
      else if c = CHR 0x0A then [CHR 0x5C, CHR ''n'']
      else if c = CHR 0x0D then [CHR 0x5C, CHR ''r'']
      else if is_printable c then [c]
      else [CHR 0x5C, CHR ''x'', hex_digit (code_point c div 16), hex_digit (code_point c mod 16)])"

definition py_repr :: "string \<Rightarrow> string" where
  "py_repr s =
     (let quote = (if CHR 0x27 \<in> set s \<and> CHR 0x22 \<notin> set s then CHR 0x22 else CHR 0x27)
      in [quote] @ concat (map (repr_char quote) s) @ [quote])"

text \<open>
  The exceptions the program meets. \<open>KeyError\<close> carries the missing key, the others their
  message; \<open>EOFError\<close> is what \<open>input()\<close> raises at the end of the input.
\<close>

datatype exn = TypeError string | KeyError string | ValueError string | EOFError

fun exn_str :: "exn \<Rightarrow> string" where
  "exn_str (TypeError m) = m"
| "exn_str (KeyError k) = py_repr k"
| "exn_str (ValueError m) = m"
| "exn_str EOFError = []"

text \<open>What a handler returns: a \<open>str\<close> or \<open>None\<close>.\<close>

datatype pyval = PyNone | PyStr string

fun truthy :: "pyval \<Rightarrow> bool" where
  "truthy PyNone = False"
| "truthy (PyStr s) = (s \<noteq> [])"

section \<open>The pattern of \<open>verify_phone\<close>\<close>

text \<open>
  The fragment of regular expressions that the pattern \<open>(\+?\d{12}|\d{10})\<close> is written in.
  \<open>rmatch r s\<close> lists, in the order a backtracking matcher tries them, what is left of
  \<open>s\<close> after each way \<open>r\<close> can match at its start; \<open>re_match\<close> is \<open>re.match\<close>, anchored
  at the start only, and returns the matched text.
\<close>

datatype regex = Lit int | Digit | Eps | Opt regex | Seq regex regex | Alt regex regex

primrec rmatch :: "regex \<Rightarrow> unicode \<Rightarrow> unicode list" where
  "rmatch (Lit c) = (\<lambda>s. case s of [] \<Rightarrow> [] | x # xs \<Rightarrow> if x = c then [xs] else [])"
| "rmatch Digit = (\<lambda>s. case s of [] \<Rightarrow> [] | x # xs \<Rightarrow> if is_digit x then [xs] else [])"
| "rmatch Eps = (\<lambda>s. [s])"
| "rmatch (Opt r) = (\<lambda>s. rmatch r s @ [s])"
| "rmatch (Seq r1 r2) = (\<lambda>s. concat (map (rmatch r2) (rmatch r1 s)))"
| "rmatch (Alt r1 r2) = (\<lambda>s. rmatch r1 s @ rmatch r2 s)"

primrec times :: "nat \<Rightarrow> regex \<Rightarrow> regex" where
  "times 0 r = Eps"
| "times (Suc n) r = Seq r (times n r)"

definition re_match :: "regex \<Rightarrow> unicode \<Rightarrow> unicode option" where
  "re_match r s = (case rmatch r s of [] \<Rightarrow> None
                   | rest # _ \<Rightarrow> Some (take (length s - length rest) s))"

definition phone_pattern :: regex where
  "phone_pattern = Alt (Seq (Opt (Lit (of_char CHR ''+''))) (times 12 Digit)) (times 10 Digit)"

section \<open>PhoneBook\<close>

text \<open>
  \<open>self.phones\<close> is a \<open>dict\<close>, which keeps its keys in insertion order: an association list,
  oldest entry first. \<open>AList.update\<close> is the assignment \<open>self.phones[name] = phone\<close>: a
  present key keeps its place, a new one goes to the end. Every method takes the dictionary
  and returns it with its result, also when it raises. The names and phones of the store are
  \<open>string\<close>s, and \<open>verify_phone\<close> is given the code points of the phone.
\<close>

type_synonym phones = "(string \<times> string) list"

definition contains :: "phones \<Rightarrow> string \<Rightarrow> bool" where
  "contains ps name = (name \<in> fst ` set ps)"

definition verify_phone :: "unicode \<Rightarrow> exn + unit" where
  "verify_phone phone =
     (if re_match phone_pattern phone = None then Inl (ValueError ''Invalid phone format'')
      else Inr ())"

definition add_contact :: "string \<Rightarrow> string \<Rightarrow> phones \<Rightarrow> (exn + unit) \<times> phones" where
  "add_contact name phone ps =
     (case verify_phone (code_points phone) of
        Inl e \<Rightarrow> (Inl e, ps)
      | Inr _ \<Rightarrow>
          if \<not> contains ps name then (Inr (), AList.update name phone ps)
          else (Inl (ValueError
            ''This name is already in your phonebook. If you want to change the phone number, type 'change'.''),
            ps))"

definition change_contact :: "string \<Rightarrow> string \<Rightarrow> phones \<Rightarrow> (exn + unit) \<times> phones" where
  "change_contact name phone ps =
     (case verify_phone (code_points phone) of
        Inl e \<Rightarrow> (Inl e, ps)
      | Inr _ \<Rightarrow>
          if contains ps name then (Inr (), AList.update name phone ps)
          else (Inl (ValueError
            ''This name is not in your phonebook. If you want to add it, type 'add'.''), ps))"

definition contact_line :: "string \<times> string \<Rightarrow> string" where
  "contact_line entry =
     ''Name: '' @ fst entry @ '', phone: '' @ snd entry @ [CHR 0x0A]"

definition show_phone :: "string \<Rightarrow> phones \<Rightarrow> (exn + string) \<times> phones" where
  "show_phone name ps =
     (if name = ''all'' then
        (if ps \<noteq> [] then (Inr (foldl (\<lambda>phonebook entry. phonebook @ contact_line entry) [] ps), ps)
         else (Inr ''You do not have any contacts yet.'', ps))
      else (case map_of ps name of
              None \<Rightarrow> (Inl (KeyError name), ps)
            | Some phone \<Rightarrow> (Inr phone, ps)))"

section \<open>The interpreter's argument binding\<close>

text \<open>
  A handler is called as \<open>handler(*args)\<close>. When the number of arguments is not the number
  of parameters the call itself raises \<open>TypeError\<close>, with the interpreter's message (the
  qualified name of the function since Python 3.10, which the annotations of the program
  need). \<open>params\<close> and \<open>given\<close> count \<open>self\<close> for a method.
\<close>

definition digit_char :: "nat \<Rightarrow> char" where
  "digit_char d = char_of (48 + int d)"

fun dec :: "nat \<Rightarrow> string" where
  "dec n = (if n < 10 then [digit_char n] else dec (n div 10) @ [digit_char (n mod 10)])"

fun format_missing :: "string list \<Rightarrow> string" where
  "format_missing [] = []"
| "format_missing [a] = py_repr a"
| "format_missing [a, b] = py_repr a @ '' and '' @ py_repr b"
| "format_missing (a # rest) =
     concat (map (\<lambda>n. py_repr n @ '', '') (a # butlast rest)) @ ''and '' @ py_repr (last rest)"

definition missing_arguments :: "string \<Rightarrow> string list \<Rightarrow> string" where
  "missing_arguments qualname names =
     qualname @ ''() missing '' @ dec (length names) @ '' required positional argument''
       @ (if length names = 1 then [] else ''s'') @ '': '' @ format_missing names"

definition too_many_positional :: "string \<Rightarrow> nat \<Rightarrow> nat \<Rightarrow> string" where
  "too_many_positional qualname co_argcount given =
     qualname @ ''() takes '' @ dec co_argcount @ '' positional argument''
       @ (if co_argcount \<noteq> 1 then ''s'' else []) @ '' but '' @ dec given @ '' ''
       @ (if given = 1 then ''was'' else ''were'') @ '' given''"

definition bind_error :: "string \<Rightarrow> string list \<Rightarrow> nat \<Rightarrow> exn" where
  "bind_error qualname params given =
     TypeError (if length params < given then too_many_positional qualname (length params) given
                else missing_arguments qualname (drop given params))"

section \<open>AssistantBot\<close>

text \<open>
  The only state of the bot that changes is the dictionary of its phonebook, so a method of
  the bot is a function from that dictionary to its result and the dictionary afterwards.
  \<open>input_error\<close> is the decorator: it runs the function and turns the three exception
  classes it names into a reply; any other exception goes through.
\<close>

type_synonym 'r action = "phones \<Rightarrow> (exn + 'r) \<times> phones"

definition input_error :: "pyval action \<Rightarrow> pyval action" where
  "input_error func ps =
     (case func ps of
        (Inr result, ps') \<Rightarrow> (Inr result, ps')
      | (Inl (TypeError m), ps') \<Rightarrow>
          (Inr (PyStr (''Invalid input, some info is missing: '' @ exn_str (TypeError m))), ps')
      | (Inl (KeyError k), ps') \<Rightarrow>
          (Inr (PyStr (''Sorry, no such command: '' @ exn_str (KeyError k))), ps')
      | (Inl (ValueError m), ps') \<Rightarrow>
          (Inr (PyStr (''ValueError: '' @ exn_str (ValueError m))), ps')
      | (Inl EOFError, ps') \<Rightarrow> (Inl EOFError, ps'))"

text \<open>
  The bodies of the handlers, before decoration. The first equation of each is the call
  with the right number of arguments; the second is the call that does not bind.
\<close>

fun hello_body :: "string list \<Rightarrow> pyval action" where
  "hello_body [] ps = (Inr (PyStr ''How can I help you?''), ps)"
| "hello_body args ps = (Inl (bind_error ''AssistantBot.hello'' [] (length args)), ps)"

fun add_body :: "string list \<Rightarrow> pyval action" where
  "add_body [name, phone] ps =
     (case add_contact name phone ps of
        (Inl e, ps') \<Rightarrow> (Inl e, ps')
      | (Inr _, ps') \<Rightarrow> (Inr PyNone, ps'))"
| "add_body args ps =
     (Inl (bind_error ''AssistantBot.add'' [''self'', ''name'', ''phone''] (Suc (length args))), ps)"

fun change_body :: "string list \<Rightarrow> pyval action" where
  "change_body [name, phone] ps =
     (case change_contact name phone ps of
        (Inl e, ps') \<Rightarrow> (Inl e, ps')
      | (Inr _, ps') \<Rightarrow> (Inr PyNone, ps'))"
| "change_body args ps =
     (Inl (bind_error ''AssistantBot.change'' [''self'', ''name'', ''phone''] (Suc (length args))), ps)"

fun show_body :: "string list \<Rightarrow> pyval action" where
  "show_body [name] ps =
     (case show_phone name ps of
        (Inl e, ps') \<Rightarrow> (Inl e, ps')
      | (Inr text, ps') \<Rightarrow> (Inr (PyStr text), ps'))"
| "show_body args ps =
     (Inl (bind_error ''AssistantBot.show'' [''self'', ''name''] (Suc (length args))), ps)"

definition hello :: "string list \<Rightarrow> pyval action" where
  "hello args = input_error (hello_body args)"

definition add :: "string list \<Rightarrow> pyval action" where
  "add args = input_error (add_body args)"

definition change :: "string list \<Rightarrow> pyval action" where
  "change args = input_error (change_body args)"

definition show_cmd :: "string list \<Rightarrow> pyval action" where
  "show_cmd args = input_error (show_body args)"

definition commands :: "string \<rightharpoonup> (string list \<Rightarrow> pyval action)" where
  "commands = map_of
     [(''hello'', hello), (''add'', add), (''change'', change), (''phone'', show_cmd), (''show'', show_cmd)]"

definition handle_body :: "string \<Rightarrow> string list \<Rightarrow> pyval action" where
  "handle_body command args ps =
     (case commands command of
        None \<Rightarrow> (Inl (KeyError command), ps)
      | Some handler \<Rightarrow> handler args ps)"

definition handle :: "string \<Rightarrow> string list \<Rightarrow> pyval action" where
  "handle command args = input_error (handle_body command args)"

section \<open>CliApp\<close>

definition parse_command :: "string \<Rightarrow> exn + string \<times> string list" where
  "parse_command user_input =
     (case split user_input of
        [] \<Rightarrow> Inl (ValueError [])
      | command # args \<Rightarrow> Inr (command, args))"

text \<open>
  The loop of \<open>run\<close> over the lines that \<open>input()\<close> will return. The result is the list of
  the lines printed and how the loop ended: \<open>None\<close> when it reached \<open>break\<close>, the exception
  when one left the loop (\<open>EOFError\<close> when the lines ran out).
\<close>

fun run_loop :: "phones \<Rightarrow> string list \<Rightarrow> string list \<times> exn option" where
  "run_loop ps [] = ([], Some EOFError)"
| "run_loop ps (line # rest) =
     (case parse_command (lower line) of
        Inl e \<Rightarrow> ([], Some e)
      | Inr (command, args) \<Rightarrow>
          if command \<in> set [''good bye'', ''close'', ''exit''] then ([''Good bye!''], None)
          else (case handle command args ps of
                  (Inl e, ps') \<Rightarrow> ([], Some e)
                | (Inr result, ps') \<Rightarrow>
                    (let (printed, ended) = run_loop ps' rest
                     in ((case result of PyStr text \<Rightarrow> if truthy result then [text] else []
                          | PyNone \<Rightarrow> []) @ printed, ended))))"

definition run :: "string list \<Rightarrow> string list \<times> exn option" where
  "run lines = run_loop [] lines"

section \<open>Notions of the specification\<close>

text \<open>
  The format of a phone in the words of the specification: the text begins with twelve
  digits, after a \<open>+\<close> or not, or it begins with ten digits; what follows is free. A
  digit is a decimal digit of any script, as for \<open>\d\<close>.
\<close>

definition starts_with_digits :: "nat \<Rightarrow> unicode \<Rightarrow> bool" where
  "starts_with_digits n s = (n \<le> length s \<and> list_all is_digit (take n s))"

definition phone_format_ok :: "unicode \<Rightarrow> bool" where
  "phone_format_ok phone =
     ((case phone of [] \<Rightarrow> False | c # rest \<Rightarrow> c = of_char CHR ''+'' \<and> starts_with_digits 12 rest)
      \<or> starts_with_digits 12 phone \<or> starts_with_digits 10 phone)"

text \<open>
  The number of arguments each command takes, read off the signatures of the handlers
  (\<open>self\<close> not counted).
\<close>

definition arity :: "string \<rightharpoonup> nat" where
  "arity = map_of [(''hello'', 0), (''add'', 2), (''change'', 2), (''phone'', 1), (''show'', 1)]"

text \<open>
  The stores that can be reached: the dictionary of a new \<open>PhoneBook\<close> is empty, and only
  \<open>add_contact\<close> and \<open>change_contact\<close> assign to it. A call that raises leaves the
  dictionary as that call left it, and the next call goes on from there.
\<close>

datatype store_op = Add string string | Change string string

fun apply_op :: "phones \<Rightarrow> store_op \<Rightarrow> phones" where
  "apply_op ps (Add name phone) = snd (add_contact name phone ps)"
| "apply_op ps (Change name phone) = snd (change_contact name phone ps)"

definition store_after :: "store_op list \<Rightarrow> phones" where
  "store_after ops = foldl apply_op [] ops"

text \<open>The invariant of the store: every phone in it is valid, and no name occurs twice.\<close>

definition store_ok :: "phones \<Rightarrow> bool" where
  "store_ok ps =
     (list_all (\<lambda>entry. verify_phone (code_points (snd entry)) = Inr ()) ps \<and> distinct (map fst ps))"

section \<open>Phone validation\<close>

lemma starts_with_digits_0: "starts_with_digits 0 s"
  by (simp add: starts_with_digits_def)

lemma starts_with_digits_Suc:
  "starts_with_digits (Suc n) s =
     (case s of [] \<Rightarrow> False | c # cs \<Rightarrow> is_digit c \<and> starts_with_digits n cs)"
  by (cases s) (auto simp: starts_with_digits_def)

lemma rmatch_times_Digit:
  "rmatch (times n Digit) s = (if starts_with_digits n s then [drop n s] else [])"
proof (induction n arbitrary: s)
  case 0
  show ?case by (simp add: starts_with_digits_0)
next
  case (Suc n)
  show ?case
  proof (cases s)
    case Nil
    then show ?thesis by (simp add: starts_with_digits_Suc)
  next
    case (Cons c cs)
    then show ?thesis by (simp add: starts_with_digits_Suc Suc.IH)
  qed
qed

lemma rmatch_phone_pattern:
  "rmatch phone_pattern phone \<noteq> [] \<longleftrightarrow> phone_format_ok phone"
proof (cases phone)
  case Nil
  then show ?thesis
    by (simp add: phone_pattern_def phone_format_ok_def rmatch_times_Digit)
next
  case (Cons c cs)
  then show ?thesis
    by (cases "c = of_char CHR ''+''")
      (simp_all add: phone_pattern_def phone_format_ok_def rmatch_times_Digit)
qed

lemma re_match_None: "re_match r s = None \<longleftrightarrow> rmatch r s = []"
  by (simp add: re_match_def split: list.splits)

lemma verify_phone_cases:
  "verify_phone phone = Inr () \<or> verify_phone phone = Inl (ValueError ''Invalid phone format'')"
  by (simp add: verify_phone_def)

lemma verify_phone_valid: "phone_format_ok phone \<Longrightarrow> verify_phone phone = Inr ()"
  using rmatch_phone_pattern [of phone] by (simp add: verify_phone_def re_match_None)

lemma verify_phone_invalid:
  "\<not> phone_format_ok phone \<Longrightarrow> verify_phone phone = Inl (ValueError ''Invalid phone format'')"
  using rmatch_phone_pattern [of phone] by (simp add: verify_phone_def re_match_None)

text \<open>
  The 66 runs of \<open>digit_zeros\<close> are in increasing order and ten or more apart, so they
  do not overlap and \<open>is_digit\<close> holds of 660 code points.
\<close>

lemma digit_zeros_runs:
  "length digit_zeros = 66
   \<and> list_all (\<lambda>(a, b). a + 10 \<le> b) (zip digit_zeros (tl digit_zeros))"
  by (simp add: digit_zeros_def)

lemma is_digit_below_1632: "c < 1632 \<Longrightarrow> is_digit c \<longleftrightarrow> 48 \<le> c \<and> c \<le> 57"
  by (auto simp: is_digit_def digit_zeros_def)

lemmas phone_eval =
  verify_phone_valid verify_phone_invalid phone_format_ok_def starts_with_digits_def
  is_digit_below_1632 code_points_def

text \<open>
  C3. \<open>verify_phone\<close> returns exactly when the phone begins with twelve digits, with or
  without a \<open>+\<close> before them, or begins with ten digits, whatever follows; on every other
  text it raises the \<open>ValueError\<close> of the invalid phone format. The phone is any Python
  \<open>str\<close>, and a digit is what \<open>\d\<close> matches, a decimal digit of any script: ten
  Arabic-Indic digits are a valid phone, ten superscript twos are not.
\<close>

theorem verify_phone_prefix_match:
  "verify_phone phone =
     (if phone_format_ok phone then Inr () else Inl (ValueError ''Invalid phone format''))"
proof (cases "phone_format_ok phone")
  case True
  then have "rmatch phone_pattern phone \<noteq> []" by (simp add: rmatch_phone_pattern)
  with True show ?thesis by (simp add: verify_phone_def re_match_None)
next
  case False
  then have "rmatch phone_pattern phone = []" using rmatch_phone_pattern [of phone] by simp
  with False show ?thesis by (simp add: verify_phone_def re_match_None)
qed

theorem verify_phone_prefix_match_witness:
  "verify_phone (code_points ''+123456789012 ext'') = Inr ()
   \<and> verify_phone (code_points ''1234567890x'') = Inr ()
   \<and> verify_phone [1633, 1634, 1635, 1636, 1637, 1638, 1639, 1640, 1641, 1632] = Inr ()
   \<and> verify_phone [43, 65297, 2407, 51, 52, 53, 54, 55, 56, 57, 48, 49, 130041] = Inr ()
   \<and> verify_phone (code_points ''+1234567890'') = Inl (ValueError ''Invalid phone format'')
   \<and> verify_phone (code_points ''123456789'') = Inl (ValueError ''Invalid phone format'')
   \<and> verify_phone [178, 178, 178, 178, 178, 178, 178, 178, 178, 178] =
       Inl (ValueError ''Invalid phone format'')
   \<and> verify_phone [49, 50, 51, 52, 53, 54, 55, 56, 57, 1642] =
       Inl (ValueError ''Invalid phone format'')"
  using verify_phone_prefix_match [of "code_points ''+123456789012 ext''"]
    verify_phone_prefix_match [of "code_points ''1234567890x''"]
    verify_phone_prefix_match [of "[1633, 1634, 1635, 1636, 1637, 1638, 1639, 1640, 1641, 1632]"]
    verify_phone_prefix_match
      [of "[43, 65297, 2407, 51, 52, 53, 54, 55, 56, 57, 48, 49, 130041]"]
    verify_phone_prefix_match [of "code_points ''+1234567890''"]
    verify_phone_prefix_match [of "code_points ''123456789''"]
    verify_phone_prefix_match [of "[178, 178, 178, 178, 178, 178, 178, 178, 178, 178]"]
    verify_phone_prefix_match [of "[49, 50, 51, 52, 53, 54, 55, 56, 57, 1642]"]
  by (simp add: phone_format_ok_def starts_with_digits_def is_digit_def digit_zeros_def
      code_points_def)

section \<open>The contact store\<close>

lemma update_absent:
  "\<not> contains ps name \<Longrightarrow> AList.update name phone ps = ps @ [(name, phone)]"
  by (induction ps) (auto simp: contains_def)

lemma set_update_subset: "set (AList.update k v ps) \<subseteq> insert (k, v) (set ps)"
  by (induction ps) auto

lemma foldl_append_lines: "foldl (\<lambda>acc entry. acc @ f entry) acc ps = acc @ concat (map f ps)"
  by (induction ps arbitrary: acc) simp_all

text \<open>
  C4. \<open>add_contact\<close> checks the phone first and the name second: an invalid phone raises
  the format error whatever the name, a valid phone for a name already present raises the
  duplicate-name error, and otherwise the pair becomes the last entry of the store. Whenever
  it raises, the store is the one it was given.
\<close>

theorem add_contact_checks:
  "add_contact name phone ps =
     (if verify_phone (code_points phone) \<noteq> Inr () then (Inl (ValueError ''Invalid phone format''), ps)
      else if contains ps name then
        (Inl (ValueError
          ''This name is already in your phonebook. If you want to change the phone number, type 'change'.''),
         ps)
      else (Inr (), ps @ [(name, phone)]))
   \<and> (\<forall>e. fst (add_contact name phone ps) = Inl e \<longrightarrow> snd (add_contact name phone ps) = ps)"
  using verify_phone_cases [of "code_points phone"]
  by (auto simp: add_contact_def update_absent)

theorem add_contact_checks_witness:
  "add_contact ''alice'' ''0000000000'' [(''alice'', ''1234567890'')] =
     (Inl (ValueError
       ''This name is already in your phonebook. If you want to change the phone number, type 'change'.''),
      [(''alice'', ''1234567890'')])
   \<and> add_contact ''alice'' ''12'' [(''alice'', ''1234567890'')] =
     (Inl (ValueError ''Invalid phone format''), [(''alice'', ''1234567890'')])
   \<and> add_contact ''bob'' ''+123456789012'' [(''alice'', ''1234567890'')] =
     (Inr (), [(''alice'', ''1234567890''), (''bob'', ''+123456789012'')])"
  using add_contact_checks [of "''alice''" "''0000000000''" "[(''alice'', ''1234567890'')]"]
    add_contact_checks [of "''alice''" "''12''" "[(''alice'', ''1234567890'')]"]
    add_contact_checks [of "''bob''" "''+123456789012''" "[(''alice'', ''1234567890'')]"]
  by (simp add: phone_eval contains_def)

text \<open>
  C5. \<open>change_contact\<close> checks the phone first and the name second: an invalid phone raises
  the format error, a valid phone for a name that is absent raises the unknown-name error,
  and otherwise the phone stored under the name is replaced, the names and their order
  staying as they were. Whenever it raises, the store is the one it was given.
\<close>

theorem change_contact_checks:
  "change_contact name phone ps =
     (if verify_phone (code_points phone) \<noteq> Inr () then (Inl (ValueError ''Invalid phone format''), ps)
      else if \<not> contains ps name then
        (Inl (ValueError ''This name is not in your phonebook. If you want to add it, type 'add'.''),
         ps)
      else (Inr (), AList.update name phone ps))
   \<and> (contains ps name \<longrightarrow>
        map_of (AList.update name phone ps) = (map_of ps)(name \<mapsto> phone)
        \<and> map fst (AList.update name phone ps) = map fst ps)
   \<and> (\<forall>e. fst (change_contact name phone ps) = Inl e \<longrightarrow> snd (change_contact name phone ps) = ps)"
  using verify_phone_cases [of "code_points phone"]
  by (auto simp: change_contact_def update_conv' update_keys contains_def)

theorem change_contact_checks_witness:
  "change_contact ''bob'' ''+123456789012'' [(''alice'', ''1234567890'')] =
     (Inl (ValueError ''This name is not in your phonebook. If you want to add it, type 'add'.''),
      [(''alice'', ''1234567890'')])
   \<and> change_contact ''alice'' ''12'' [(''alice'', ''1234567890'')] =
     (Inl (ValueError ''Invalid phone format''), [(''alice'', ''1234567890'')])
   \<and> change_contact ''alice'' ''+123456789012'' [(''alice'', ''1234567890''), (''bob'', ''0000000000'')] =
     (Inr (), [(''alice'', ''+123456789012''), (''bob'', ''0000000000'')])"
  using change_contact_checks [of "''bob''" "''+123456789012''" "[(''alice'', ''1234567890'')]"]
    change_contact_checks [of "''alice''" "''12''" "[(''alice'', ''1234567890'')]"]
    change_contact_checks [of "''alice''" "''+123456789012''"
      "[(''alice'', ''1234567890''), (''bob'', ''0000000000'')]"]
  by (simp add: phone_eval contains_def)

text \<open>
  C8. When \<open>add_contact name phone\<close> returns, for a name other than \<open>all\<close>, \<open>show_phone name\<close>
  on the resulting store returns that phone.
\<close>

theorem add_then_show:
  assumes "name \<noteq> ''all''" and "add_contact name phone ps = (Inr (), ps')"
  shows "show_phone name ps' = (Inr phone, ps')"
proof -
  from assms(2) have "ps' = AList.update name phone ps"
    by (auto simp: add_contact_def split: sum.splits if_splits)
  then have "map_of ps' name = Some phone" by (simp add: update_conv')
  with assms(1) show ?thesis by (simp add: show_phone_def)
qed

theorem add_then_show_witness:
  "add_contact ''alice'' ''1234567890'' [] = (Inr (), [(''alice'', ''1234567890'')])
   \<and> show_phone ''alice'' [(''alice'', ''1234567890'')] = (Inr ''1234567890'', [(''alice'', ''1234567890'')])"
proof -
  have ne: "''alice'' \<noteq> ''all''" by simp
  have added: "add_contact ''alice'' ''1234567890'' [] = (Inr (), [(''alice'', ''1234567890'')])"
    by (simp add: add_contact_def contains_def phone_eval)
  from add_then_show [OF ne added] added show ?thesis by simp
qed

section \<open>The listing\<close>

lemma foldl_add_fresh:
  "distinct (map fst (ps @ cs)) \<Longrightarrow> list_all (\<lambda>c. verify_phone (code_points (snd c)) = Inr ()) cs \<Longrightarrow>
   foldl apply_op ps (map (\<lambda>c. Add (fst c) (snd c)) cs) = ps @ cs"
proof (induction cs arbitrary: ps)
  case Nil
  show ?case by simp
next
  case (Cons c cs)
  from Cons.prems have fresh: "\<not> contains ps (fst c)" by (auto simp: contains_def)
  from Cons.prems have ok: "verify_phone (code_points (snd c)) = Inr ()" by simp
  have step: "apply_op ps (Add (fst c) (snd c)) = ps @ [c]"
    using fresh ok by (simp add: add_contact_def update_absent)
  have "foldl apply_op (ps @ [c]) (map (\<lambda>c. Add (fst c) (snd c)) cs) = (ps @ [c]) @ cs"
    using Cons.prems by (intro Cons.IH) simp_all
  with step show ?case by simp
qed

lemma listing_longer:
  "(name, phone) \<in> set ps \<Longrightarrow> length phone < length (concat (map contact_line ps))"
  by (induction ps) (auto simp: contact_line_def)

text \<open>
  C7. On the empty store \<open>show_phone\<close> of \<open>all\<close> returns the text "You do not have any
  contacts yet."; on a store with entries it returns, for each entry in the order of the
  store, the line "Name: name, phone: phone" ended by a newline. The order of the store is
  the order of insertion: after adding contacts with valid phones and different names, one
  after the other, to a new phonebook, the listing has their lines in that order.
\<close>

theorem show_phone_all_listing:
  "show_phone ''all'' [] = (Inr ''You do not have any contacts yet.'', [])
   \<and> (ps \<noteq> [] \<longrightarrow>
        show_phone ''all'' ps =
          (Inr (concat (map (\<lambda>(name, phone). ''Name: '' @ name @ '', phone: '' @ phone @ [CHR 0x0A]) ps)),
           ps))
   \<and> (cs \<noteq> [] \<and> distinct (map fst cs) \<and> list_all (\<lambda>c. verify_phone (code_points (snd c)) = Inr ()) cs \<longrightarrow>
        show_phone ''all'' (store_after (map (\<lambda>c. Add (fst c) (snd c)) cs)) =
          (Inr (concat (map (\<lambda>(name, phone). ''Name: '' @ name @ '', phone: '' @ phone @ [CHR 0x0A]) cs)),
           cs))"
proof -
  have line: "contact_line = (\<lambda>(name, phone). ''Name: '' @ name @ '', phone: '' @ phone @ [CHR 0x0A])"
    by (auto simp: contact_line_def fun_eq_iff)
  have listing: "show_phone ''all'' qs =
          (Inr (concat (map (\<lambda>(name, phone). ''Name: '' @ name @ '', phone: '' @ phone @ [CHR 0x0A]) qs)),
           qs)" if "qs \<noteq> []" for qs
    using that by (simp add: show_phone_def foldl_append_lines line)
  have empty: "show_phone ''all'' [] = (Inr ''You do not have any contacts yet.'', [])"
    by (simp add: show_phone_def)
  have "store_after (map (\<lambda>c. Add (fst c) (snd c)) cs) = cs"
    if "distinct (map fst cs)" and "list_all (\<lambda>c. verify_phone (code_points (snd c)) = Inr ()) cs"
    using that foldl_add_fresh [of "[]" cs] by (simp add: store_after_def)
  with listing [of cs] listing [of ps] empty show ?thesis by simp
qed

theorem show_phone_all_listing_witness:
  "show_phone ''all'' (store_after [Add ''alice'' ''1234567890'', Add ''bob'' ''+123456789012'']) =
     (Inr (''Name: alice, phone: 1234567890'' @ [CHR 0x0A] @ ''Name: bob, phone: +123456789012'' @ [CHR 0x0A]),
      [(''alice'', ''1234567890''), (''bob'', ''+123456789012'')])
   \<and> show_phone ''all'' [(''bob'', ''+123456789012'')] =
     (Inr (''Name: bob, phone: +123456789012'' @ [CHR 0x0A]), [(''bob'', ''+123456789012'')])"
  using show_phone_all_listing [of "[(''bob'', ''+123456789012'')]"
      "[(''alice'', ''1234567890''), (''bob'', ''+123456789012'')]"]
  by (simp add: phone_eval)

text \<open>
  C10. A contact named \<open>all\<close> is added like any other: with a valid phone and no entry of
  that name yet, \<open>add_contact\<close> appends it. Whatever the store, \<open>show_phone\<close> of \<open>all\<close>
  returns the listing, or the text for the empty store, and that is never the phone stored
  under the name \<open>all\<close>.
\<close>

theorem contact_named_all:
  "(verify_phone (code_points phone) = Inr () \<and> \<not> contains ps ''all'' \<longrightarrow>
      add_contact ''all'' phone ps = (Inr (), ps @ [(''all'', phone)]))
   \<and> show_phone ''all'' ps =
       (Inr (if ps = [] then ''You do not have any contacts yet.''
             else concat (map contact_line ps)), ps)
   \<and> (map_of ps ''all'' = Some phone \<longrightarrow> fst (show_phone ''all'' ps) \<noteq> Inr phone)"
proof -
  have listing: "show_phone ''all'' ps =
       (Inr (if ps = [] then ''You do not have any contacts yet.''
             else concat (map contact_line ps)), ps)"
    by (simp add: show_phone_def foldl_append_lines)
  have "fst (show_phone ''all'' ps) \<noteq> Inr phone" if "map_of ps ''all'' = Some phone"
  proof -
    from that have mem: "(''all'', phone) \<in> set ps" by (rule map_of_SomeD)
    then have "ps \<noteq> []" by auto
    with listing_longer [OF mem] show ?thesis unfolding listing by auto
  qed
  then show ?thesis using listing by (simp add: add_contact_def update_absent)
qed

theorem contact_named_all_witness:
  "add_contact ''all'' ''1234567890'' [] = (Inr (), [(''all'', ''1234567890'')])
   \<and> show_phone ''all'' [(''all'', ''1234567890'')] =
       (Inr (''Name: all, phone: 1234567890'' @ [CHR 0x0A]), [(''all'', ''1234567890'')])
   \<and> fst (show_phone ''all'' [(''all'', ''1234567890'')]) \<noteq> Inr ''1234567890''"
  using contact_named_all [of "''1234567890''" "[]"]
    contact_named_all [of "''1234567890''" "[(''all'', ''1234567890'')]"]
  by (simp add: phone_eval contains_def contact_line_def)

section \<open>The invariant of the store\<close>

lemma store_ok_update:
  assumes "store_ok ps" and "verify_phone (code_points phone) = Inr ()"
  shows "store_ok (AList.update name phone ps)"
proof -
  have "\<forall>entry \<in> set (AList.update name phone ps). verify_phone (code_points (snd entry)) = Inr ()"
    using assms set_update_subset [of name phone ps]
    by (auto simp: store_ok_def list_all_iff)
  moreover have "distinct (map fst (AList.update name phone ps))"
    using assms(1) by (simp add: store_ok_def distinct_update)
  ultimately show ?thesis by (simp add: store_ok_def list_all_iff)
qed

lemma store_ok_apply_op: "store_ok ps \<Longrightarrow> store_ok (apply_op ps op)"
proof (cases op)
  case (Add name phone)
  assume "store_ok ps"
  then show ?thesis using Add verify_phone_cases [of "code_points phone"]
    by (auto simp: add_contact_def store_ok_update)
next
  case (Change name phone)
  assume "store_ok ps"
  then show ?thesis using Change verify_phone_cases [of "code_points phone"]
    by (auto simp: change_contact_def store_ok_update)
qed

lemma store_ok_foldl: "store_ok ps \<Longrightarrow> store_ok (foldl apply_op ps ops)"
  by (induction ops arbitrary: ps) (simp_all add: store_ok_apply_op)

lemma store_ok_store_after: "store_ok (store_after ops)"
proof -
  have "store_ok []" by (simp add: store_ok_def)
  then show ?thesis unfolding store_after_def by (rule store_ok_foldl)
qed

text \<open>
  C9. In the store of a new phonebook after any sequence of \<open>add_contact\<close> and
  \<open>change_contact\<close> calls, raising or not, every stored phone is accepted by
  \<open>verify_phone\<close>, no name is stored twice, and \<open>add_contact\<close> for a name that is present
  raises and leaves the store as it is.
\<close>

theorem reachable_store_invariant:
  "(\<forall>entry \<in> set (store_after ops). verify_phone (code_points (snd entry)) = Inr ())
   \<and> distinct (map fst (store_after ops))
   \<and> (\<forall>name phone. contains (store_after ops) name \<longrightarrow>
         (\<exists>e. add_contact name phone (store_after ops) = (Inl e, store_after ops)))"
proof -
  have "store_ok (store_after ops)" by (rule store_ok_store_after)
  then have "\<forall>entry \<in> set (store_after ops). verify_phone (code_points (snd entry)) = Inr ()"
    and "distinct (map fst (store_after ops))"
    by (simp_all add: store_ok_def list_all_iff)
  moreover have "\<exists>e. add_contact name phone ps = (Inl e, ps)" if "contains ps name" for name phone ps
    using that verify_phone_cases [of "code_points phone"] by (auto simp: add_contact_def)
  ultimately show ?thesis by blast
qed

theorem reachable_store_invariant_witness:
  "store_after [Add ''alice'' ''1234567890'', Change ''alice'' ''+123456789012'', Add ''bob'' ''12''] =
     [(''alice'', ''+123456789012'')]
   \<and> verify_phone (code_points ''+123456789012'') = Inr ()
   \<and> (\<exists>e. add_contact ''alice'' ''0000000000'' [(''alice'', ''+123456789012'')] =
         (Inl e, [(''alice'', ''+123456789012'')]))"
proof -
  let ?ops = "[Add ''alice'' ''1234567890'', Change ''alice'' ''+123456789012'', Add ''bob'' ''12'']"
  have eq: "store_after ?ops = [(''alice'', ''+123456789012'')]"
    by (simp add: store_after_def add_contact_def change_contact_def contains_def phone_eval)
  have c: "contains [(''alice'', ''+123456789012'')] ''alice''" by (simp add: contains_def)
  show ?thesis using reachable_store_invariant [of ?ops] c unfolding eq by simp
qed

section \<open>The dispatcher\<close>

lemma input_error_returns:
  assumes "\<And>ps'. func ps \<noteq> (Inl EOFError, ps')"
  shows "\<exists>result ps'. input_error func ps = (Inr result, ps')"
proof (cases "func ps")
  case (Pair r ps')
  show ?thesis
  proof (cases r)
    case (Inl e)
    with Pair assms [of ps'] show ?thesis by (cases e) (simp_all add: input_error_def)
  next
    case (Inr v)
    with Pair show ?thesis by (simp add: input_error_def)
  qed
qed

lemma add_contact_no_EOF: "add_contact name phone ps \<noteq> (Inl EOFError, ps')"
  using verify_phone_cases [of "code_points phone"] by (auto simp: add_contact_def)

lemma change_contact_no_EOF: "change_contact name phone ps \<noteq> (Inl EOFError, ps')"
  using verify_phone_cases [of "code_points phone"] by (auto simp: change_contact_def)

lemma show_phone_no_EOF: "show_phone name ps \<noteq> (Inl EOFError, ps')"
  by (auto simp: show_phone_def split: option.splits)

lemma hello_body_no_EOF: "hello_body args ps \<noteq> (Inl EOFError, ps')"
  by (cases "(args, ps)" rule: hello_body.cases) (simp_all add: bind_error_def)

lemma add_body_no_EOF: "add_body args ps \<noteq> (Inl EOFError, ps')"
proof (cases "(args, ps)" rule: add_body.cases)
  case (1 name phone qs)
  then show ?thesis using add_contact_no_EOF [of name phone ps]
    by (auto split: prod.splits sum.splits)
qed (simp_all add: bind_error_def)

lemma change_body_no_EOF: "change_body args ps \<noteq> (Inl EOFError, ps')"
proof (cases "(args, ps)" rule: change_body.cases)
  case (1 name phone qs)
  then show ?thesis using change_contact_no_EOF [of name phone ps]
    by (auto split: prod.splits sum.splits)
qed (simp_all add: bind_error_def)

lemma show_body_no_EOF: "show_body args ps \<noteq> (Inl EOFError, ps')"
proof (cases "(args, ps)" rule: show_body.cases)
  case (1 name qs)
  then show ?thesis using show_phone_no_EOF [of name ps]
    by (auto split: prod.splits sum.splits)
qed (simp_all add: bind_error_def)

lemma commands_cases:
  "commands command =
     (if command = ''hello'' then Some hello
      else if command = ''add'' then Some add
      else if command = ''change'' then Some change
      else if command = ''phone'' \<or> command = ''show'' then Some show_cmd
      else None)"
  by (simp add: commands_def)

lemma arity_cases:
  "arity command =
     (if command = ''hello'' then Some 0
      else if command = ''add'' \<or> command = ''change'' then Some 2
      else if command = ''phone'' \<or> command = ''show'' then Some 1
      else None)"
  by (simp add: arity_def)

lemma handler_returns:
  assumes "commands command = Some handler"
  shows "\<exists>result ps'. handler args ps = (Inr result, ps')"
proof -
  from assms have "handler = hello \<or> handler = add \<or> handler = change \<or> handler = show_cmd"
    by (auto simp: commands_cases split: if_splits)
  then show ?thesis
    unfolding hello_def add_def change_def show_cmd_def
    by (auto intro!: input_error_returns
        simp: hello_body_no_EOF add_body_no_EOF change_body_no_EOF show_body_no_EOF)
qed

lemma handle_known:
  assumes "commands command = Some handler"
  shows "handle command args ps = handler args ps"
proof -
  from handler_returns [OF assms, of args ps]
  obtain result ps' where "handler args ps = (Inr result, ps')" by blast
  with assms show ?thesis by (simp add: handle_def handle_body_def input_error_def)
qed

lemma handle_returns: "\<exists>result ps'. handle command args ps = (Inr result, ps')"
proof (cases "commands command")
  case None
  then show ?thesis by (simp add: handle_def handle_body_def input_error_def)
next
  case (Some handler)
  with handler_returns [OF Some, of args ps] show ?thesis by (simp add: handle_known)
qed

lemma handle_unknown:
  "arity command = None \<Longrightarrow>
   handle command args ps = (Inr (PyStr (''Sorry, no such command: '' @ py_repr command)), ps)"
  by (simp add: arity_cases commands_cases handle_def handle_body_def input_error_def
      split: if_splits)

lemma hello_arity:
  "length args \<noteq> 0 \<Longrightarrow>
   \<exists>m. hello args ps = (Inr (PyStr (''Invalid input, some info is missing: '' @ m)), ps)"
  by (cases "(args, ps)" rule: hello_body.cases)
    (simp_all add: hello_def input_error_def bind_error_def)

lemma add_arity:
  "length args \<noteq> 2 \<Longrightarrow>
   \<exists>m. add args ps = (Inr (PyStr (''Invalid input, some info is missing: '' @ m)), ps)"
  by (cases "(args, ps)" rule: add_body.cases)
    (simp_all add: add_def input_error_def bind_error_def)

lemma change_arity:
  "length args \<noteq> 2 \<Longrightarrow>
   \<exists>m. change args ps = (Inr (PyStr (''Invalid input, some info is missing: '' @ m)), ps)"
  by (cases "(args, ps)" rule: change_body.cases)
    (simp_all add: change_def input_error_def bind_error_def)

lemma show_arity:
  "length args \<noteq> 1 \<Longrightarrow>
   \<exists>m. show_cmd args ps = (Inr (PyStr (''Invalid input, some info is missing: '' @ m)), ps)"
  by (cases "(args, ps)" rule: show_body.cases)
    (simp_all add: show_cmd_def input_error_def bind_error_def)

lemma handle_arity:
  assumes "arity command = Some n" and "length args \<noteq> n"
  shows "\<exists>m. handle command args ps =
           (Inr (PyStr (''Invalid input, some info is missing: '' @ m)), ps)"
proof -
  from assms(1) consider
      "command = ''hello''" "n = 0"
    | "command = ''add''" "n = 2"
    | "command = ''change''" "n = 2"
    | "command = ''phone'' \<or> command = ''show''" "n = 1"
    by (auto simp: arity_cases split: if_splits)
  then show ?thesis
  proof cases
    case 1
    then have "handle command args ps = hello args ps"
      by (intro handle_known) (simp add: commands_cases)
    moreover have "length args \<noteq> 0" using 1 assms(2) by simp
    ultimately show ?thesis using hello_arity [of args ps] by simp
  next
    case 2
    then have "handle command args ps = add args ps"
      by (intro handle_known) (simp add: commands_cases)
    moreover have "length args \<noteq> 2" using 2 assms(2) by simp
    ultimately show ?thesis using add_arity [of args ps] by simp
  next
    case 3
    then have "handle command args ps = change args ps"
      by (intro handle_known) (simp add: commands_cases)
    moreover have "length args \<noteq> 2" using 3 assms(2) by simp
    ultimately show ?thesis using change_arity [of args ps] by simp
  next
    case 4
    then have "handle command args ps = show_cmd args ps"
      by (intro handle_known) (auto simp: commands_cases)
    moreover have "length args \<noteq> 1" using 4 assms(2) by simp
    ultimately show ?thesis using show_arity [of args ps] by simp
  qed
qed

text \<open>
  C6. \<open>handle\<close> returns for every command and every list of arguments: no exception leaves
  it. For a command that is not in the table the result is the text "Sorry, no such
  command: " with the command quoted, and for a command of the table called with another
  number of arguments than its handler takes it is a text that starts with "Invalid input,
  some info is missing: "; in both cases the store is untouched.
\<close>

theorem handle_never_raises:
  "(\<exists>result ps'. handle command args ps = (Inr result, ps'))
   \<and> (arity command = None \<longrightarrow>
        handle command args ps = (Inr (PyStr (''Sorry, no such command: '' @ py_repr command)), ps))
   \<and> (\<forall>n. arity command = Some n \<and> length args \<noteq> n \<longrightarrow>
        (\<exists>m. handle command args ps =
           (Inr (PyStr (''Invalid input, some info is missing: '' @ m)), ps)))"
  using handle_returns [of command args ps] handle_unknown [of command args ps]
    handle_arity [of command _ args ps]
  by blast

theorem handle_never_raises_witness:
  "handle ''foo'' [] [] = (Inr (PyStr (''Sorry, no such command: '' @ py_repr ''foo'')), [])
   \<and> (\<exists>m. handle ''add'' [''alice''] [] =
         (Inr (PyStr (''Invalid input, some info is missing: '' @ m)), []))"
proof -
  have "arity ''foo'' = None" and "arity ''add'' = Some 2" by (simp_all add: arity_def)
  then show ?thesis
    using handle_never_raises [of "''foo''" "[]" "[]"]
      handle_never_raises [of "''add''" "[''alice'']" "[]"]
    by simp
qed

text \<open>
  C1. The claim is that looking up a name that is not in the store fails with an error of
  its own, which the dispatcher reports as a missing contact. On the empty store,
  \<open>show_phone\<close> of \<open>bob\<close> raises the \<open>KeyError\<close> of the dictionary, the exception of an
  unknown command, and the reply to \<open>phone bob\<close> is "Sorry, no such command: 'bob'", the
  very reply to the command \<open>bob\<close>; \<open>change_contact\<close> for the same absent name is
  reported as a name that is not in the phonebook.
\<close>

theorem show_phone_missing_name_reply:
  "show_phone ''bob'' [] = (Inl (KeyError ''bob''), [])
   \<and> handle ''phone'' [''bob''] [] =
       (Inr (PyStr (''Sorry, no such command: '' @ [CHR 0x27] @ ''bob'' @ [CHR 0x27])), [])
   \<and> handle ''phone'' [''bob''] [] = handle ''bob'' [] []
   \<and> handle ''change'' [''bob'', ''1234567890''] [] =
       (Inr (PyStr
         ''ValueError: This name is not in your phonebook. If you want to add it, type 'add'.''), [])"
  by code_simp

section \<open>The input loop\<close>

lemma run_loop_stop_word:
  assumes "parse_command (lower line) = Inr (command, args)"
    and "command = ''close'' \<or> command = ''exit''"
  shows "run_loop ps (line # rest) = ([''Good bye!''], None)"
  using assms by auto

text \<open>
  C2. The claim is that the line \<open>good bye\<close> ends the loop like \<open>close\<close> and \<open>exit\<close>. The
  loop compares the first word of the line with the stop words, so \<open>good bye\<close> is sent to
  the dispatcher as the command \<open>good\<close>, its reply is printed and the loop goes on: it
  ends at the next \<open>exit\<close>, or with \<open>EOFError\<close> when no line is left.
\<close>

theorem good_bye_not_terminating:
  "run [''good bye'', ''exit''] =
     ([''Sorry, no such command: '' @ [CHR 0x27] @ ''good'' @ [CHR 0x27], ''Good bye!''], None)
   \<and> run [''Good Bye''] =
     ([''Sorry, no such command: '' @ [CHR 0x27] @ ''good'' @ [CHR 0x27]], Some EOFError)
   \<and> run [''exit'', ''hello''] = ([''Good bye!''], None)"
  by code_simp

end
